theory Spec2Isabelle
  imports Complex_Main "HOL-Library.Sublist"
begin

section \<open>Python values, strings and exceptions\<close>

text \<open>
  A Python \<open>str\<close> is modelled as a HOL \<open>string\<close>; every \<open>char\<close> stands for one code
  point in the range U+0000 .. U+00FF, so \<open>length\<close> is Python's \<open>len\<close> on such strings.
  Strings with code points above U+00FF are outside the model.
\<close>

type_synonym path = string
type_synonym bytes = string

text \<open>The characters \<open>str.strip()\<close> removes (Python's \<open>str.isspace\<close>, below U+0100).\<close>

definition py_isspace :: "char \<Rightarrow> bool" where
  "py_isspace c =
     (let n = (of_char c :: nat)
      in (9 \<le> n \<and> n \<le> 13) \<or> (28 \<le> n \<and> n \<le> 32) \<or> n = 133 \<or> n = 160)"

definition py_strip :: "string \<Rightarrow> string" where
  "py_strip s = rev (dropWhile py_isspace (rev (dropWhile py_isspace s)))"

text \<open>\<open>str.lower()\<close> below U+0100: A-Z and the accented capitals gain bit 5.\<close>

definition py_isupper :: "char \<Rightarrow> bool" where
  "py_isupper c =
     (let n = (of_char c :: nat)
      in (65 \<le> n \<and> n \<le> 90) \<or> (192 \<le> n \<and> n \<le> 214) \<or> (216 \<le> n \<and> n \<le> 222))"

definition py_lower_char :: "char \<Rightarrow> char" where
  "py_lower_char c =
     (if py_isupper c
      then (case c of Char b0 b1 b2 b3 b4 b5 b6 b7 \<Rightarrow> Char b0 b1 b2 b3 b4 True b6 b7)
      else c)"

definition py_lower :: "string \<Rightarrow> string" where
  "py_lower s = map py_lower_char s"

text \<open>\<open>needle in haystack\<close> on strings is contiguous containment.\<close>

definition py_in :: "string \<Rightarrow> string \<Rightarrow> bool" where
  "py_in needle haystack = sublist needle haystack"

text \<open>
  The exception classes the program raises, catches or tells apart with \<open>isinstance\<close>.
  The argument is \<open>str(error)\<close>. \<open>ModelError\<close> and \<open>ReplicateError\<close> are the classes of
  \<open>replicate.exceptions\<close>, \<open>RequestException\<close> the base class of \<open>requests\<close> (with all
  its subclasses), \<open>UnidentifiedImageError\<close> is PIL's, \<open>ImageSaveError\<close> and \<open>APIError\<close>
  are the program's own, \<open>IndexError\<close>, \<open>ValueError\<close> and \<open>OverflowError\<close> are the
  built-in ones, \<open>OtherException\<close> is any other subclass of \<open>Exception\<close>.
\<close>

datatype py_exception =
    ModelError string
  | ReplicateError string
  | RequestException string
  | UnidentifiedImageError string
  | OSError string
  | IndexError string
  | ValueError string
  | OverflowError string
  | ImageSaveError string
  | APIError string
  | OtherException string

fun str_of :: "py_exception \<Rightarrow> string" where
  "str_of (ModelError m) = m"
| "str_of (ReplicateError m) = m"
| "str_of (RequestException m) = m"
| "str_of (UnidentifiedImageError m) = m"
| "str_of (OSError m) = m"
| "str_of (IndexError m) = m"
| "str_of (ValueError m) = m"
| "str_of (OverflowError m) = m"
| "str_of (ImageSaveError m) = m"
| "str_of (APIError m) = m"
| "str_of (OtherException m) = m"

text \<open>\<open>isinstance(e, requests.RequestException)\<close>.\<close>

fun is_RequestException :: "py_exception \<Rightarrow> bool" where
  "is_RequestException (RequestException m) = True"
| "is_RequestException e = False"

text \<open>
  \<open>isinstance(e, (IOError, OSError))\<close>: \<open>requests.RequestException\<close> and
  \<open>PIL.UnidentifiedImageError\<close> are both subclasses of \<open>OSError\<close>.
\<close>

fun is_OSError :: "py_exception \<Rightarrow> bool" where
  "is_OSError (OSError m) = True"
| "is_OSError (RequestException m) = True"
| "is_OSError (UnidentifiedImageError m) = True"
| "is_OSError e = False"

text \<open>
  The values a caller can pass where a \<open>str\<close> is expected: \<open>None\<close>, an integer, a string,
  or any other object, of which only its truth value matters here.
\<close>

datatype py_value = PyNone | PyInt int | PyStr string | PyObject bool

fun truthy :: "py_value \<Rightarrow> bool" where
  "truthy PyNone = False"
| "truthy (PyInt n) = (n \<noteq> 0)"
| "truthy (PyStr s) = (s \<noteq> [])"
| "truthy (PyObject b) = b"

fun is_str :: "py_value \<Rightarrow> bool" where
  "is_str (PyStr s) = True"
| "is_str v = False"

fun str_value :: "py_value \<Rightarrow> string" where
  "str_value (PyStr s) = s"
| "str_value v = []"

section \<open>utils.validate\_prompt\<close>

definition validate_prompt :: "py_value \<Rightarrow> py_exception + string" where
  "validate_prompt prompt =
     (if \<not> truthy prompt \<or> \<not> is_str prompt
      then Inl (ValueError ''Prompt must be a non-empty string'')
      else let cleaned_prompt = py_strip (str_value prompt)
           in if cleaned_prompt = []
              then Inl (ValueError ''Prompt cannot be empty or just whitespace'')
              else if length cleaned_prompt > 500
              then Inl (ValueError ''Prompt is too long (maximum 500 characters)'')
              else Inr cleaned_prompt)"

section \<open>ImageGenerator.\_handle\_api\_error\<close>

fun handle_api_error :: "py_exception \<Rightarrow> bool \<times> string" where
  "handle_api_error (ModelError m) = (False, ''Model error: '' @ m)"
| "handle_api_error (ReplicateError m) =
     (if py_in ''rate limit'' (py_lower m) then (True, ''Rate limit exceeded'')
      else if py_in ''unauthorized'' (py_lower m) then (False, ''Invalid API token'')
      else (True, ''API error: '' @ m))"
| "handle_api_error (RequestException m) = (True, ''Network error: '' @ m)"
| "handle_api_error e = (False, ''Unexpected error: '' @ str_of e)"

section \<open>Python floats\<close>

text \<open>
  A Python \<open>float\<close>: a finite value, kept as the real number it stands for, an infinity
  or NaN. \<open>float * int\<close> converts the int first, which raises \<open>OverflowError\<close> for an
  int that rounds to \<open>2 ** 1024\<close> or beyond; a product that large is an infinity. The
  program only multiplies by powers of two, which rounds nothing, so the finite product
  is kept exact.
\<close>

datatype py_float = Finite real | PosInf | NegInf | NaN

definition float_overflow_bound :: int where
  "float_overflow_bound = 2 ^ 1024 - 2 ^ 970"

definition float_times_int :: "py_float \<Rightarrow> int \<Rightarrow> py_exception + py_float" where
  "float_times_int x k =
     (if \<bar>k\<bar> \<ge> float_overflow_bound
      then Inl (OverflowError ''int too large to convert to float'')
      else Inr (case x of
                  Finite r \<Rightarrow>
                    (if \<bar>r * of_int k\<bar> \<ge> of_int float_overflow_bound
                     then (if r * of_int k > 0 then PosInf else NegInf)
                     else Finite (r * of_int k))
                | PosInf \<Rightarrow> (if k > 0 then PosInf else if k < 0 then NegInf else NaN)
                | NegInf \<Rightarrow> (if k > 0 then NegInf else if k < 0 then PosInf else NaN)
                | NaN \<Rightarrow> NaN))"

section \<open>The environment and the observable state\<close>

text \<open>
  What the program does to the outside world is recorded in a \<open>world\<close>: the files (path to
  content), the trace of blocking and network effects in the order they happen, and the
  log. Log messages are kept as their f-string parts, numbers unrendered.
\<close>

datatype event = Slept real | RemoteRun string | HttpGet string

datatype log_level = INFO | WARNING | ERROR

datatype log_part = Txt string | IntArg int | SecondsArg py_float

record world =
  files :: "path \<rightharpoonup> bytes"
  trace :: "event list"
  log :: "(log_level \<times> log_part list) list"

definition logger :: "log_level \<Rightarrow> log_part list \<Rightarrow> world \<Rightarrow> world" where
  "logger lvl msg w = w\<lparr>log := log w @ [(lvl, msg)]\<rparr>"

definition record_event :: "event \<Rightarrow> world \<Rightarrow> world" where
  "record_event ev w = w\<lparr>trace := trace w @ [ev]\<rparr>"

text \<open>
  A decoded PIL image, and the HTTP response of \<open>requests.get\<close>: its body and what
  \<open>raise_for_status()\<close> raises (an \<open>HTTPError\<close>, which is a \<open>RequestException\<close>, for a
  4xx or 5xx status; nothing otherwise).
\<close>

datatype image = Image (image_format: string) (image_data: bytes)

record response =
  content :: bytes
  status_error :: "py_exception option"

text \<open>
  The external collaborators, as functions the program calls: the remote generation
  service (its answer may depend on everything that happened before the call), the
  clock, the file system's free-space query, the HTTP fetch, PIL's decoder, integrity
  check and encoder-writer, and \<open>shutil.copy2\<close>.

  \<open>copy2 src dst\<close> is \<open>None\<close> when the copy succeeds. When it raises, it gives the
  exception and what the failed copy left at \<open>dst\<close>: \<open>None\<close> if it did not touch it,
  \<open>Some b\<close> if \<open>dst\<close> now holds \<open>b\<close> (an empty, partial or even complete copy: \<open>copy2\<close>
  copies the content first and the metadata after).

  \<open>image_save img path\<close> gives the bytes PIL writes for the image at the path (the
  format follows the extension). When it raises, it gives the exception and what became
  of the file at \<open>path\<close>: \<open>None\<close> if it was not touched, \<open>Some None\<close> if there is no file
  there afterwards, \<open>Some (Some b)\<close> if it now holds \<open>b\<close>.
\<close>

record env =
  client_run :: "event list \<Rightarrow> string \<Rightarrow> py_exception + string list"
  strftime_now :: "event list \<Rightarrow> string"
  disk_usage :: "path \<Rightarrow> py_exception + nat \<times> nat \<times> nat"
  requests_get :: "string \<Rightarrow> py_exception + response"
  image_open :: "bytes \<Rightarrow> py_exception + image"
  image_verify :: "image \<Rightarrow> py_exception option"
  copy2 :: "path \<Rightarrow> path \<Rightarrow> (py_exception \<times> bytes option) option"
  image_save :: "image \<Rightarrow> path \<Rightarrow> (py_exception \<times> bytes option option) + bytes"

section \<open>os.path (POSIX)\<close>

definition os_path_join :: "path \<Rightarrow> path \<Rightarrow> path" where
  "os_path_join a p =
     (if p \<noteq> [] \<and> hd p = CHR ''/'' then p
      else if a = [] \<or> last a = CHR ''/'' then a @ p
      else a @ ''/'' @ p)"

definition os_path_dirname :: "path \<Rightarrow> path" where
  "os_path_dirname p =
     (let head = rev (dropWhile (\<lambda>c. c \<noteq> CHR ''/'') (rev p))
      in if head \<noteq> [] \<and> \<not> list_all (\<lambda>c. c = CHR ''/'') head
         then rev (dropWhile (\<lambda>c. c = CHR ''/'') (rev head))
         else head)"

definition os_path_exists :: "world \<Rightarrow> path \<Rightarrow> bool" where
  "os_path_exists w p = (files w p \<noteq> None)"

section \<open>utils: the persistence pipeline\<close>

definition default_required_bytes :: nat where
  "default_required_bytes = 1024 * 1024 * 10"

definition check_disk_space :: "env \<Rightarrow> path \<Rightarrow> nat \<Rightarrow> world \<Rightarrow> bool \<times> world" where
  "check_disk_space E filepath required_bytes w =
     (case disk_usage E (os_path_dirname filepath) of
        Inr (total_bytes, used_bytes, free_bytes) \<Rightarrow> (free_bytes > required_bytes, w)
      | Inl e \<Rightarrow>
          (True, logger WARNING [Txt ''Failed to check disk space: '', Txt (str_of e)] w))"

definition validate_image :: "env \<Rightarrow> image \<Rightarrow> world \<Rightarrow> bool \<times> world" where
  "validate_image E img w =
     (case image_verify E img of
        None \<Rightarrow> (True, w)
      | Some e \<Rightarrow> (False, logger ERROR [Txt ''Image validation failed: '', Txt (str_of e)] w))"

definition create_backup :: "env \<Rightarrow> path \<Rightarrow> world \<Rightarrow> path option \<times> world" where
  "create_backup E filepath w =
     (case files w filepath of
        None \<Rightarrow> (None, w)
      | Some old \<Rightarrow>
          (let backup_path = filepath @ ''.backup''
           in case copy2 E filepath backup_path of
                None \<Rightarrow> (Some backup_path, w\<lparr>files := (files w)(backup_path \<mapsto> old)\<rparr>)
              | Some (e, left) \<Rightarrow>
                  (None,
                   logger WARNING [Txt ''Failed to create backup: '', Txt (str_of e)]
                     (case left of
                        None \<Rightarrow> w
                      | Some partial \<Rightarrow> w\<lparr>files := (files w)(backup_path \<mapsto> partial)\<rparr>))))"

text \<open>The body of the \<open>try\<close> block of \<open>save_image_from_url\<close>; \<open>Inl\<close> is a raised exception.\<close>

definition save_try_block ::
  "env \<Rightarrow> string \<Rightarrow> path \<Rightarrow> world \<Rightarrow> (py_exception + path) \<times> world" where
  "save_try_block E url filepath w =
     (let w1 = record_event (HttpGet url) w
      in case requests_get E url of
           Inl e \<Rightarrow> (Inl e, w1)
         | Inr resp \<Rightarrow>
             (case status_error resp of
                Some e \<Rightarrow> (Inl e, w1)
              | None \<Rightarrow>
                  (case image_open E (content resp) of
                     Inl (UnidentifiedImageError m) \<Rightarrow>
                       (Inl (ImageSaveError ''Downloaded data is not a valid image''), w1)
                   | Inl e \<Rightarrow> (Inl e, w1)
                   | Inr img \<Rightarrow>
                       (case validate_image E img w1 of
                          (False, w2) \<Rightarrow> (Inl (ImageSaveError ''Image validation failed''), w2)
                        | (True, w2) \<Rightarrow>
                            (let w3 =
                               (if os_path_exists w2 filepath
                                then (case create_backup E filepath w2 of
                                        (Some backup_path, w') \<Rightarrow>
                                          logger INFO [Txt ''Created backup at: '', Txt backup_path] w'
                                      | (None, w') \<Rightarrow> w')
                                else w2)
                             in case image_open E (content resp) of
                                  Inl e \<Rightarrow> (Inl e, w3)
                                | Inr image_copy \<Rightarrow>
                                    (case image_save E image_copy filepath of
                                       Inl (e, left) \<Rightarrow>
                                         (Inl e,
                                          (case left of
                                             None \<Rightarrow> w3
                                           | Some state \<Rightarrow>
                                               w3\<lparr>files := (files w3)(filepath := state)\<rparr>))
                                     | Inr written \<Rightarrow>
                                         (Inr filepath,
                                          logger INFO [Txt ''Successfully saved image to: '', Txt filepath]
                                            (w3\<lparr>files := (files w3)(filepath \<mapsto> written)\<rparr>))))))))"

text \<open>The three \<open>except\<close> clauses of \<open>save_image_from_url\<close>, in their order.\<close>

definition save_except :: "py_exception \<Rightarrow> py_exception" where
  "save_except e =
     (if is_RequestException e then ImageSaveError (''Failed to download image: '' @ str_of e)
      else if is_OSError e then ImageSaveError (''Failed to save image: '' @ str_of e)
      else ImageSaveError (''Unexpected error while saving image: '' @ str_of e))"

definition save_image_from_url ::
  "env \<Rightarrow> string \<Rightarrow> path \<Rightarrow> world \<Rightarrow> (py_exception + path) \<times> world" where
  "save_image_from_url E url output_dir w =
     (let timestamp = strftime_now E (trace w);
          filename = ''generated_image_'' @ timestamp @ ''.png'';
          filepath = os_path_join output_dir filename
      in case check_disk_space E filepath default_required_bytes w of
           (False, w0) \<Rightarrow> (Inl (ImageSaveError ''Insufficient disk space for saving the image''), w0)
         | (True, w0) \<Rightarrow>
             (case save_try_block E url filepath w0 of
                (Inl e, w') \<Rightarrow> (Inl (save_except e), w')
              | (Inr p, w') \<Rightarrow> (Inr p, w')))"

section \<open>ImageGenerator.generate\_image\<close>

text \<open>The generator's settings; \<open>base_delay\<close> is a \<open>float\<close>, as annotated.\<close>

record generator =
  max_retries :: int
  base_delay :: py_float
  output_dir :: path

text \<open>
  \<open>time.sleep\<close> (CPython 3.11) converts the length to a 64-bit count of nanoseconds
  first: NaN is a \<open>ValueError\<close>, an infinity or a length outside
  \<open>-2 ** 63 <= ns < 2 ** 63\<close> an \<open>OverflowError\<close>. A negative length is then refused with
  a \<open>ValueError\<close>. The rounding of the conversion itself is not modelled.
\<close>

definition sleep_limit :: real where
  "sleep_limit = 2 ^ 63 / 10 ^ 9"

definition time_sleep :: "py_float \<Rightarrow> world \<Rightarrow> py_exception + world" where
  "time_sleep secs w =
     (case secs of
        NaN \<Rightarrow> Inl (ValueError ''Invalid value NaN (not a number)'')
      | PosInf \<Rightarrow> Inl (OverflowError ''timestamp too large to convert to C _PyTime_t'')
      | NegInf \<Rightarrow> Inl (OverflowError ''timestamp too large to convert to C _PyTime_t'')
      | Finite r \<Rightarrow>
          if r < - sleep_limit \<or> sleep_limit \<le> r
          then Inl (OverflowError ''timestamp too large to convert to C _PyTime_t'')
          else if r < 0 then Inl (ValueError ''sleep length must be non-negative'')
          else Inr (record_event (Slept r) w))"

definition py_range :: "int \<Rightarrow> int list" where
  "py_range n = map int [0 ..< nat n]"

text \<open>
  The backoff at the head of the \<open>try\<close> block: nothing on the first attempt, a logged
  sleep of \<open>base_delay * (2 ** (attempt - 1))\<close> before every later one. The first
  component is the exception raised, if any, by the multiplication or by \<open>time.sleep\<close>.
\<close>

definition backoff_sleep :: "generator \<Rightarrow> int \<Rightarrow> world \<Rightarrow> py_exception option \<times> world" where
  "backoff_sleep G attempt w =
     (if attempt > 0
      then (case float_times_int (base_delay G) (2 ^ nat (attempt - 1)) of
              Inl e \<Rightarrow> (Some e, w)
            | Inr delay \<Rightarrow>
                (let w' = logger INFO [Txt ''Retry attempt '', IntArg attempt, Txt ''/'',
                            IntArg (max_retries G), Txt '' after '', SecondsArg delay,
                            Txt ''s delay''] w
                 in case time_sleep delay w' of
                      Inl e \<Rightarrow> (Some e, w')
                    | Inr w'' \<Rightarrow> (None, w'')))
      else (None, w))"

text \<open>
  The body of the \<open>try\<close> block of one loop iteration. The returned dictionary is a map
  from its keys. \<open>output[0]\<close> on an empty list raises \<open>IndexError\<close>.
\<close>

definition attempt_try ::
  "env \<Rightarrow> generator \<Rightarrow> string \<Rightarrow> int \<Rightarrow> world \<Rightarrow>
     (py_exception + (string \<rightharpoonup> string)) \<times> world" where
  "attempt_try E G cleaned_prompt attempt w =
     (case backoff_sleep G attempt w of
        (Some e, w1) \<Rightarrow> (Inl e, w1)
      | (None, w1) \<Rightarrow>
          (let w2 = record_event (RemoteRun cleaned_prompt) w1
           in case client_run E (trace w1) cleaned_prompt of
                Inl e \<Rightarrow> (Inl e, w2)
              | Inr [] \<Rightarrow> (Inl (IndexError ''list index out of range''), w2)
              | Inr (image_url # others) \<Rightarrow>
                  (case save_image_from_url E image_url (output_dir G) w2 of
                     (Inl e, w3) \<Rightarrow> (Inl e, w3)
                   | (Inr filepath, w3) \<Rightarrow>
                       (Inr [''filepath'' \<mapsto> filepath, ''prompt'' \<mapsto> cleaned_prompt],
                        logger INFO [Txt ''Successfully generated image after '',
                          IntArg (attempt + 1), Txt '' attempt(s)''] w3))))"

text \<open>
  The \<open>for\<close> loop over the attempts still to make. Falling off the end of the loop
  returns Python's \<open>None\<close>, here \<open>Inr None\<close>.
\<close>

fun attempts_loop ::
  "env \<Rightarrow> generator \<Rightarrow> string \<Rightarrow> int list \<Rightarrow> world \<Rightarrow>
     (py_exception + (string \<rightharpoonup> string) option) \<times> world" where
  "attempts_loop E G cleaned_prompt [] w = (Inr None, w)"
| "attempts_loop E G cleaned_prompt (attempt # rest) w =
     (case attempt_try E G cleaned_prompt attempt w of
        (Inr result, w') \<Rightarrow> (Inr (Some result), w')
      | (Inl e, w') \<Rightarrow>
          (case handle_api_error e of
             (should_retry, error_message) \<Rightarrow>
               if \<not> should_retry \<or> attempt = max_retries G
               then (Inl (APIError error_message),
                     logger ERROR [Txt ''Failed to generate image: '', Txt error_message] w')
               else attempts_loop E G cleaned_prompt rest
                      (logger WARNING [Txt ''Attempt '', IntArg (attempt + 1), Txt '' failed: '',
                         Txt error_message] w')))"

definition generate_image ::
  "env \<Rightarrow> generator \<Rightarrow> py_value \<Rightarrow> world \<Rightarrow>
     (py_exception + (string \<rightharpoonup> string) option) \<times> world" where
  "generate_image E G prompt w =
     (case validate_prompt prompt of
        Inl e \<Rightarrow> (Inl e, w)
      | Inr cleaned_prompt \<Rightarrow>
          attempts_loop E G cleaned_prompt (py_range (max_retries G + 1)) w)"

section \<open>Observations on traces, and a sample environment\<close>

text \<open>The number of remote invocations, the sleeps and the fetched URLs in a trace.\<close>

fun run_count :: "event list \<Rightarrow> nat" where
  "run_count [] = 0"
| "run_count (RemoteRun p # es) = Suc (run_count es)"
| "run_count (ev # es) = run_count es"

fun sleeps_of :: "event list \<Rightarrow> real list" where
  "sleeps_of [] = []"
| "sleeps_of (Slept d # es) = d # sleeps_of es"
| "sleeps_of (ev # es) = sleeps_of es"

fun fetches_of :: "event list \<Rightarrow> string list" where
  "fetches_of [] = []"
| "fetches_of (HttpGet u # es) = u # fetches_of es"
| "fetches_of (ev # es) = fetches_of es"

text \<open>
  The destination \<open>save_image_from_url\<close> computes first: the output directory joined
  with \<open>generated_image_<timestamp>.png\<close>; and the backup path beside it.
\<close>

definition destination :: "env \<Rightarrow> path \<Rightarrow> world \<Rightarrow> path" where
  "destination E dir w =
     os_path_join dir (''generated_image_'' @ strftime_now E (trace w) @ ''.png'')"

definition backup_of :: "path \<Rightarrow> path" where
  "backup_of filepath = filepath @ ''.backup''"

text \<open>
  A sample environment in which everything works: the service answers with one URL, the
  disk has room, the fetch returns bytes that decode, verify and save. The generator is
  the one of the repository's tests (two retries, base delay 0.1 s).
\<close>

definition sample_env :: env where
  "sample_env =
     \<lparr> client_run = (\<lambda>h p. Inr [''http://example.com/image.png'']),
       strftime_now = (\<lambda>h. ''20240101_120000''),
       disk_usage = (\<lambda>d. Inr (500000000000, 100000000000, 400000000000)),
       requests_get = (\<lambda>u. Inr \<lparr> content = ''PNG-bytes'', status_error = None \<rparr>),
       image_open = (\<lambda>b. if b = ''PNG-bytes'' then Inr (Image ''PNG'' ''red square'')
                          else Inl (UnidentifiedImageError ''cannot identify image file'')),
       image_verify = (\<lambda>i. None),
       copy2 = (\<lambda>src dst. None),
       image_save = (\<lambda>i p. Inr (''PNG:'' @ image_data i)) \<rparr>"

definition sample_generator :: generator where
  "sample_generator =
     \<lparr> max_retries = 2, base_delay = Finite (1 / 10), output_dir = ''generated_images'' \<rparr>"

definition sample_path :: path where
  "sample_path = ''generated_images/generated_image_20240101_120000.png''"

definition empty_world :: world where
  "empty_world = \<lparr> files = Map.empty, trace = [], log = [] \<rparr>"

section \<open>Properties of validate\_prompt\<close>

lemma rstrip_split: "t = rev (dropWhile P (rev t)) @ rev (takeWhile P (rev t))"
  by (metis rev_append rev_rev_ident takeWhile_dropWhile_id)

lemma dropWhile_rstrip_head:
  assumes "t = [] \<or> \<not> P (hd t)"
  shows "dropWhile P (rev (dropWhile P (rev t))) = rev (dropWhile P (rev t))"
proof (cases "dropWhile P (rev t) = []")
  case True
  show ?thesis by (simp only: True rev.simps dropWhile.simps)
next
  case False
  define r where "r = rev (dropWhile P (rev t))"
  have t: "t = r @ rev (takeWhile P (rev t))"
    unfolding r_def by (rule rstrip_split)
  from False have rne: "r \<noteq> []" by (simp add: r_def)
  with t have "hd t = hd r" by (metis hd_append2)
  moreover from t rne have "t \<noteq> []" by auto
  ultimately have "\<not> P (hd r)" using assms by auto
  with rne have "dropWhile P r = r" by (cases r) auto
  then show ?thesis by (simp add: r_def)
qed

lemma py_strip_Nil: "py_strip [] = []"
  by (simp add: py_strip_def)

lemma py_strip_lstrip: "dropWhile py_isspace (py_strip s) = py_strip s"
proof -
  have h: "dropWhile py_isspace s = [] \<or> \<not> py_isspace (hd (dropWhile py_isspace s))"
    by (metis hd_dropWhile)
  show ?thesis
    unfolding py_strip_def
    by (rule dropWhile_rstrip_head [where P = py_isspace and t = "dropWhile py_isspace s", OF h])
qed

lemma py_strip_idem: "py_strip (py_strip s) = py_strip s"
proof -
  have "py_strip (py_strip s) = rev (dropWhile py_isspace (rev (py_strip s)))"
    by (simp add: py_strip_def [of "py_strip s"] py_strip_lstrip)
  also have "\<dots> = py_strip s"
    by (simp add: py_strip_def dropWhile_idem)
  finally show ?thesis .
qed

lemma py_strip_decomp:
  "\<exists>pre post. s = pre @ py_strip s @ post \<and> list_all py_isspace pre \<and> list_all py_isspace post"
proof -
  let ?t = "dropWhile py_isspace s"
  have 1: "s = takeWhile py_isspace s @ ?t" by simp
  have 2: "?t = py_strip s @ rev (takeWhile py_isspace (rev ?t))"
    unfolding py_strip_def by (rule rstrip_split)
  have 3: "list_all py_isspace (takeWhile py_isspace s)"
    by (simp add: list_all_iff) (meson set_takeWhileD)
  have 4: "list_all py_isspace (rev (takeWhile py_isspace (rev ?t)))"
    by (simp add: list_all_iff) (meson set_takeWhileD)
  from 1 2 have "s = takeWhile py_isspace s @ py_strip s @ rev (takeWhile py_isspace (rev ?t))"
    by metis
  with 3 4 show ?thesis by blast
qed

lemma py_strip_ends:
  assumes ne: "py_strip s \<noteq> []"
  shows "\<not> py_isspace (hd (py_strip s)) \<and> \<not> py_isspace (last (py_strip s))"
proof -
  from ne py_strip_lstrip [of s] have a: "\<not> py_isspace (hd (py_strip s))"
    by (metis hd_dropWhile)
  let ?d = "dropWhile py_isspace (rev (dropWhile py_isspace s))"
  from ne have dne: "?d \<noteq> []" by (simp add: py_strip_def)
  then have "\<not> py_isspace (hd ?d)" by (metis hd_dropWhile)
  moreover have "last (py_strip s) = hd ?d" using dne by (simp add: py_strip_def last_rev)
  ultimately show ?thesis using a by simp
qed

lemma validate_prompt_PyStr:
  "validate_prompt (PyStr s) =
     (if py_strip s = [] then
        (if s = [] then Inl (ValueError ''Prompt must be a non-empty string'')
         else Inl (ValueError ''Prompt cannot be empty or just whitespace''))
      else if length (py_strip s) > 500
      then Inl (ValueError ''Prompt is too long (maximum 500 characters)'')
      else Inr (py_strip s))"
  by (cases "s = []") (simp_all add: validate_prompt_def Let_def py_strip_Nil)

text \<open>
  C4: \<open>validate_prompt\<close> raises \<open>ValueError\<close> (the spec's InvalidPrompt) for every input
  that is not a string, for every string that is empty or only whitespace once stripped,
  and for every string whose stripped length exceeds 500; for every other string it
  returns the stripped string, which is the input without a leading and a trailing run
  of whitespace and neither starts nor ends with whitespace. In particular
  \<open>"  hi  "\<close> gives \<open>"hi"\<close>.
\<close>

theorem validate_prompt_cases:
  "(\<not> is_str v \<longrightarrow> validate_prompt v = Inl (ValueError ''Prompt must be a non-empty string''))
   \<and> (py_strip s1 = [] \<longrightarrow> (\<exists>m. validate_prompt (PyStr s1) = Inl (ValueError m)))
   \<and> (length (py_strip s2) > 500 \<longrightarrow>
        validate_prompt (PyStr s2) = Inl (ValueError ''Prompt is too long (maximum 500 characters)''))
   \<and> (py_strip s3 \<noteq> [] \<and> length (py_strip s3) \<le> 500 \<longrightarrow>
        validate_prompt (PyStr s3) = Inr (py_strip s3)
        \<and> (\<exists>pre post. s3 = pre @ py_strip s3 @ post
              \<and> list_all py_isspace pre \<and> list_all py_isspace post)
        \<and> \<not> py_isspace (hd (py_strip s3)) \<and> \<not> py_isspace (last (py_strip s3)))
   \<and> validate_prompt (PyStr ''  hi  '') = Inr ''hi''"
proof -
  have a: "\<not> is_str v \<longrightarrow> validate_prompt v = Inl (ValueError ''Prompt must be a non-empty string'')"
    by (simp add: validate_prompt_def)
  have b: "py_strip s1 = [] \<longrightarrow> (\<exists>m. validate_prompt (PyStr s1) = Inl (ValueError m))"
    by (simp add: validate_prompt_PyStr)
  have c: "length (py_strip s2) > 500 \<longrightarrow>
        validate_prompt (PyStr s2) = Inl (ValueError ''Prompt is too long (maximum 500 characters)'')"
    by (auto simp add: validate_prompt_PyStr)
  have d1: "py_strip s3 \<noteq> [] \<and> length (py_strip s3) \<le> 500 \<longrightarrow>
        validate_prompt (PyStr s3) = Inr (py_strip s3)"
    by (simp add: validate_prompt_PyStr)
  have e: "validate_prompt (PyStr ''  hi  '') = Inr ''hi''"
    by (simp add: validate_prompt_def Let_def py_strip_def py_isspace_def)
  from a b c d1 e py_strip_decomp [of s3] py_strip_ends [of s3] show ?thesis by blast
qed

text \<open>The four cases of C4 at \<open>None\<close>, three blanks, 501 letters and \<open>"  hi  "\<close>.\<close>

theorem validate_prompt_cases_witness:
  "\<not> is_str PyNone
   \<and> validate_prompt PyNone = Inl (ValueError ''Prompt must be a non-empty string'')
   \<and> py_strip ''   '' = []
   \<and> (\<exists>m. validate_prompt (PyStr ''   '') = Inl (ValueError m))
   \<and> length (py_strip (replicate 501 (CHR ''a''))) > 500
   \<and> validate_prompt (PyStr (replicate 501 (CHR ''a''))) =
        Inl (ValueError ''Prompt is too long (maximum 500 characters)'')
   \<and> py_strip ''  hi  '' \<noteq> [] \<and> length (py_strip ''  hi  '') \<le> 500
   \<and> validate_prompt (PyStr ''  hi  '') = Inr (py_strip ''  hi  '')"
proof -
  have h1: "\<not> is_str PyNone" by simp
  have h2: "py_strip ''   '' = []" by (simp add: py_strip_def py_isspace_def)
  have na: "\<not> py_isspace (CHR ''a'')" by (simp add: py_isspace_def)
  have "py_strip (replicate 501 (CHR ''a'')) = replicate 501 (CHR ''a'')"
    unfolding py_strip_def
    by (simp add: na dropWhile_eq_self_iff hd_replicate)
  then have h3: "length (py_strip (replicate 501 (CHR ''a''))) > 500" by simp
  have h4: "py_strip ''  hi  '' \<noteq> [] \<and> length (py_strip ''  hi  '') \<le> 500"
    by (simp add: py_strip_def py_isspace_def)
  from h1 h2 h3 h4
    validate_prompt_cases [of PyNone "''   ''" "replicate 501 (CHR ''a'')" "''  hi  ''"]
  show ?thesis by blast
qed

text \<open>
  C5: validation is idempotent: when \<open>validate_prompt\<close> succeeds on \<open>p\<close> with value
  \<open>v\<close>, it succeeds on \<open>v\<close> and returns \<open>v\<close> unchanged.
\<close>

theorem validate_prompt_idempotent:
  "validate_prompt p = Inr v \<Longrightarrow> validate_prompt (PyStr v) = Inr v"
proof -
  assume ok: "validate_prompt p = Inr v"
  then have v: "v = py_strip (str_value p)" and ne: "v \<noteq> []" and le: "length v \<le> 500"
    by (auto simp: validate_prompt_def Let_def split: if_splits)
  from v have "py_strip v = v" by (simp add: py_strip_idem)
  with ne le show ?thesis by (simp add: validate_prompt_def Let_def)
qed


text \<open>C5 at \<open>"  hi  "\<close>.\<close>

theorem validate_prompt_idempotent_witness:
  "validate_prompt (PyStr ''  hi  '') = Inr ''hi'' \<and> validate_prompt (PyStr ''hi'') = Inr ''hi''"
proof -
  have h: "validate_prompt (PyStr ''  hi  '') = Inr ''hi''"
    by (simp add: validate_prompt_def Let_def py_strip_def py_isspace_def)
  from h validate_prompt_idempotent [OF h] show ?thesis by simp
qed

section \<open>Properties of the error classifier\<close>






section \<open>Basic facts about the state\<close>

lemma trace_logger [simp]: "trace (logger lvl msg w) = trace w"
  by (simp add: logger_def)

lemma files_logger [simp]: "files (logger lvl msg w) = files w"
  by (simp add: logger_def)

lemma trace_record_event [simp]: "trace (record_event ev w) = trace w @ [ev]"
  by (simp add: record_event_def)

lemma files_record_event [simp]: "files (record_event ev w) = files w"
  by (simp add: record_event_def)

lemma run_count_append [simp]: "run_count (xs @ ys) = run_count xs + run_count ys"
  by (induction xs rule: run_count.induct) simp_all

lemma sleeps_of_append [simp]: "sleeps_of (xs @ ys) = sleeps_of xs @ sleeps_of ys"
  by (induction xs rule: sleeps_of.induct) simp_all

lemma fetches_of_append [simp]: "fetches_of (xs @ ys) = fetches_of xs @ fetches_of ys"
  by (induction xs rule: fetches_of.induct) simp_all






lemma backoff_sleep_first: "a \<le> 0 \<Longrightarrow> backoff_sleep G a w = (None, w)"
  by (simp add: backoff_sleep_def)



section \<open>Facts about the persistence pipeline\<close>

lemma check_disk_space_world:
  "check_disk_space E f r w = (b, w0) \<Longrightarrow> trace w0 = trace w \<and> files w0 = files w"
  by (auto simp: check_disk_space_def split: sum.splits prod.splits)

lemma validate_image_world:
  "validate_image E img w = (b, w') \<Longrightarrow> trace w' = trace w \<and> files w' = files w"
  by (auto simp: validate_image_def split: option.splits)

lemma create_backup_trace:
  "create_backup E f w = (r, w') \<Longrightarrow> trace w' = trace w"
  by (auto simp: create_backup_def Let_def split: option.splits)

lemma save_except_class: "\<exists>m. save_except e = ImageSaveError m"
  by (simp add: save_except_def)

lemma save_raises_ImageSaveError:
  "save_image_from_url E u d w = (Inl e, w') \<Longrightarrow> \<exists>m. e = ImageSaveError m"
  using save_except_class
  by (auto simp: save_image_from_url_def Let_def split: prod.splits bool.splits sum.splits)

lemma save_try_block_trace:
  "save_try_block E u f w = (r, w') \<Longrightarrow> trace w' = trace w @ [HttpGet u]"
  unfolding save_try_block_def Let_def
  by (auto split: sum.splits option.splits py_exception.splits prod.splits bool.splits if_splits
       dest!: validate_image_world create_backup_trace)

lemma save_run_count:
  "save_image_from_url E u d w = (r, w') \<Longrightarrow> run_count (trace w') = run_count (trace w)"
  by (auto simp: save_image_from_url_def Let_def split: prod.splits bool.splits sum.splits
       dest!: check_disk_space_world save_try_block_trace)

section \<open>Facts about the attempt loop\<close>


lemma py_range_head: "0 \<le> n \<Longrightarrow> \<exists>rest. py_range (n + 1) = 0 # rest"
proof -
  assume "0 \<le> n"
  then have "nat (n + 1) = Suc (nat n)" by simp
  then have "py_range (n + 1) = map int (0 # [1 ..< Suc (nat n)])"
    unfolding py_range_def by (simp only: upt_conv_Cons zero_less_Suc One_nat_def)
  then show ?thesis by simp
qed


lemma attempt_try_empty:
  assumes "backoff_sleep G a w = (None, w1)" and "client_run E (trace w1) c = Inr []"
  shows "attempt_try E G c a w =
           (Inl (IndexError ''list index out of range''), record_event (RemoteRun c) w1)"
  using assms by (simp add: attempt_try_def Let_def)

lemma attempt_try_save_fails:
  assumes "backoff_sleep G a w = (None, w1)" and "client_run E (trace w1) c = Inr (u # us)"
    and "save_image_from_url E u (output_dir G) (record_event (RemoteRun c) w1) = (Inl e, w3)"
  shows "attempt_try E G c a w = (Inl e, w3)"
  using assms by (simp add: attempt_try_def Let_def)

lemma attempt_try_save_ok:
  assumes "backoff_sleep G a w = (None, w1)" and "client_run E (trace w1) c = Inr (u # us)"
    and "save_image_from_url E u (output_dir G) (record_event (RemoteRun c) w1) = (Inr fp, w3)"
  shows "attempt_try E G c a w =
           (Inr [''filepath'' \<mapsto> fp, ''prompt'' \<mapsto> c],
            logger INFO [Txt ''Successfully generated image after '', IntArg (a + 1),
              Txt '' attempt(s)''] w3)"
  using assms by (simp add: attempt_try_def Let_def)

lemma attempt_try_success:
  assumes "attempt_try E G c a w = (Inr d, w')"
  shows "\<exists>filepath. d = [''filepath'' \<mapsto> filepath, ''prompt'' \<mapsto> c]"
  using assms
  by (auto simp: attempt_try_def Let_def split: prod.splits option.splits sum.splits list.splits)

lemma attempts_loop_success_prompt:
  "attempts_loop E G c as w = (Inr (Some d), w') \<Longrightarrow> d ''prompt'' = Some c"
proof (induction as arbitrary: w)
  case Nil
  then show ?case by simp
next
  case (Cons a as)
  obtain r w1 where at: "attempt_try E G c a w = (r, w1)" by (cases "attempt_try E G c a w")
  show ?case
  proof (cases r)
    case (Inr d0)
    with at Cons.prems have "d = d0" by simp
    moreover from at Inr obtain fp where "d0 = [''filepath'' \<mapsto> fp, ''prompt'' \<mapsto> c]"
      using attempt_try_success by blast
    ultimately show ?thesis by simp
  next
    case (Inl e)
    obtain sr msg where h: "handle_api_error e = (sr, msg)" by (cases "handle_api_error e")
    from at Inl h Cons.prems
    have "attempts_loop E G c as
            (logger WARNING [Txt ''Attempt '', IntArg (a + 1), Txt '' failed: '', Txt msg] w1)
          = (Inr (Some d), w')"
      by (simp split: if_splits)
    then show ?thesis by (rule Cons.IH)
  qed
qed









section \<open>Properties of generate\_image\<close>

lemma attempts_loop_empty_output:
  assumes "backoff_sleep G a w0 = (None, w1)" and "client_run E (trace w1) c = Inr []"
  shows "fst (attempts_loop E G c (a # rest) w0)
           = Inl (APIError ''Unexpected error: list index out of range'')"
    and "trace (snd (attempts_loop E G c (a # rest) w0)) = trace w1 @ [RemoteRun c]"
  using attempt_try_empty [OF assms] by simp_all

text \<open>
  C1, as the claim states it, fails: when the remote call returns an empty list, the
  terminal error's message is \<open>Unexpected error: list index out of range\<close>, not
  \<open>malformed response\<close>. The \<open>IndexError\<close> of \<open>output[0]\<close> goes through the same
  classifier as every other failure and lands in its last row.
\<close>

theorem empty_output_counterexample:
  "fst (generate_image (sample_env\<lparr>client_run := \<lambda>h p. Inr []\<rparr>) sample_generator
          (PyStr ''a red fox'') empty_world)
     = Inl (APIError ''Unexpected error: list index out of range'')
   \<and> fst (generate_image (sample_env\<lparr>client_run := \<lambda>h p. Inr []\<rparr>) sample_generator
          (PyStr ''a red fox'') empty_world)
     \<noteq> Inl (APIError ''malformed response'')"
proof -
  have v: "validate_prompt (PyStr ''a red fox'') = Inr ''a red fox''"
    by (simp add: validate_prompt_def Let_def py_strip_def py_isspace_def)
  obtain rest where r: "py_range (max_retries sample_generator + 1) = 0 # rest"
    using py_range_head [of "max_retries sample_generator"] by (auto simp: sample_generator_def)
  have "fst (generate_image (sample_env\<lparr>client_run := \<lambda>h p. Inr []\<rparr>) sample_generator
          (PyStr ''a red fox'') empty_world)
     = Inl (APIError ''Unexpected error: list index out of range'')"
    unfolding generate_image_def v r
    by (simp add: attempt_try_def backoff_sleep_def Let_def)
  then show ?thesis by simp
qed

text \<open>
  C1, amended: for every generation request in which the remote call succeeds but returns
  a list with no elements, \<open>generate_image\<close> fails with a terminal \<open>APIError\<close> whose
  message is \<open>Unexpected error: list index out of range\<close>, without another remote call.
  First for a request whose first call returns the empty list, then for any later
  attempt of the loop (\<open>w1\<close> is the state after that attempt's backoff sleep).
\<close>

theorem empty_output_unexpected_error:
  "(validate_prompt p = Inr c \<and> 0 \<le> max_retries G \<and> client_run E (trace w) c = Inr [] \<longrightarrow>
      fst (generate_image E G p w) = Inl (APIError ''Unexpected error: list index out of range'')
      \<and> trace (snd (generate_image E G p w)) = trace w @ [RemoteRun c])
   \<and> (backoff_sleep G a w0 = (None, w1) \<and> client_run E (trace w1) c = Inr [] \<longrightarrow>
      fst (attempts_loop E G c (a # rest) w0)
        = Inl (APIError ''Unexpected error: list index out of range'')
      \<and> trace (snd (attempts_loop E G c (a # rest) w0)) = trace w1 @ [RemoteRun c])"
proof -
  have first: "fst (generate_image E G p w) = Inl (APIError ''Unexpected error: list index out of range'')
      \<and> trace (snd (generate_image E G p w)) = trace w @ [RemoteRun c]"
    if v: "validate_prompt p = Inr c" and m: "0 \<le> max_retries G"
      and out: "client_run E (trace w) c = Inr []"
  proof -
    obtain rest' where r: "py_range (max_retries G + 1) = 0 # rest'"
      using py_range_head [OF m] by blast
    have b: "backoff_sleep G 0 w = (None, w)" by (rule backoff_sleep_first) simp
    show ?thesis
      unfolding generate_image_def v r
      using attempts_loop_empty_output [OF b out, of rest'] by simp
  qed
  have later: "fst (attempts_loop E G c (a # rest) w0)
        = Inl (APIError ''Unexpected error: list index out of range'')
      \<and> trace (snd (attempts_loop E G c (a # rest) w0)) = trace w1 @ [RemoteRun c]"
    if "backoff_sleep G a w0 = (None, w1)" and "client_run E (trace w1) c = Inr []"
    using attempts_loop_empty_output [OF that, of rest] by simp
  from first later show ?thesis by blast
qed

text \<open>C1, amended, at a service that always answers with an empty list.\<close>

theorem empty_output_unexpected_error_witness:
  "validate_prompt (PyStr ''a red fox'') = Inr ''a red fox''
   \<and> 0 \<le> max_retries sample_generator
   \<and> client_run (sample_env\<lparr>client_run := \<lambda>h p. Inr []\<rparr>) (trace empty_world) ''a red fox'' = Inr []
   \<and> fst (generate_image (sample_env\<lparr>client_run := \<lambda>h p. Inr []\<rparr>) sample_generator
            (PyStr ''a red fox'') empty_world)
       = Inl (APIError ''Unexpected error: list index out of range'')
   \<and> backoff_sleep sample_generator 0 empty_world = (None, empty_world)
   \<and> fst (attempts_loop (sample_env\<lparr>client_run := \<lambda>h p. Inr []\<rparr>) sample_generator
            ''a red fox'' [0, 1, 2] empty_world)
       = Inl (APIError ''Unexpected error: list index out of range'')"
proof -
  have v: "validate_prompt (PyStr ''a red fox'') = Inr ''a red fox''"
    by (simp add: validate_prompt_def Let_def py_strip_def py_isspace_def)
  have m: "0 \<le> max_retries sample_generator" by (simp add: sample_generator_def)
  have out: "client_run (sample_env\<lparr>client_run := \<lambda>h p. Inr []\<rparr>) (trace empty_world) ''a red fox''
               = Inr []" by simp
  have b: "backoff_sleep sample_generator 0 empty_world = (None, empty_world)"
    by (simp add: backoff_sleep_def)
  from v m out b
    empty_output_unexpected_error [of "PyStr ''a red fox''" "''a red fox''" sample_generator
      "sample_env\<lparr>client_run := \<lambda>h p. Inr []\<rparr>" empty_world 0 empty_world empty_world "[1, 2]"]
  show ?thesis by simp
qed




lemma attempts_loop_save_fails:
  assumes "backoff_sleep G a w0 = (None, w1)" and "client_run E (trace w1) c = Inr (u # us)"
    and "fst (save_image_from_url E u (output_dir G) (record_event (RemoteRun c) w1)) = Inl e"
  shows "\<exists>m. e = ImageSaveError m
           \<and> fst (attempts_loop E G c (a # rest) w0) = Inl (APIError (''Unexpected error: '' @ m))
           \<and> run_count (trace (snd (attempts_loop E G c (a # rest) w0))) = run_count (trace w1) + 1"
proof -
  obtain w3 where s: "save_image_from_url E u (output_dir G) (record_event (RemoteRun c) w1) = (Inl e, w3)"
    using assms(3) by (cases "save_image_from_url E u (output_dir G) (record_event (RemoteRun c) w1)") simp
  from save_raises_ImageSaveError [OF s] obtain m where m: "e = ImageSaveError m" by blast
  from save_run_count [OF s] have rc: "run_count (trace w3) = run_count (trace w1) + 1" by simp
  have at: "attempt_try E G c a w0 = (Inl e, w3)"
    using attempt_try_save_fails [OF assms(1,2) s] .
  show ?thesis using at m rc by simp
qed

text \<open>
  C9: when the remote call succeeds and the persistence pipeline then fails, the failure
  is an \<open>ImageSaveError\<close>, \<open>generate_image\<close> ends with the single terminal
  \<open>APIError\<close> \<open>Unexpected error: ...\<close> and the remote call is not invoked again: a
  request whose first call succeeds makes exactly one remote call, and an attempt of the
  loop whose call succeeds makes exactly that one call more.
\<close>

theorem persist_failure_not_retried:
  "(validate_prompt p = Inr c \<and> 0 \<le> max_retries G
      \<and> client_run E (trace w) c = Inr (u # us)
      \<and> fst (save_image_from_url E u (output_dir G) (record_event (RemoteRun c) w)) = Inl e \<longrightarrow>
      (\<exists>m. e = ImageSaveError m
         \<and> fst (generate_image E G p w) = Inl (APIError (''Unexpected error: '' @ m)))
      \<and> run_count (trace (snd (generate_image E G p w))) = run_count (trace w) + 1)
   \<and> (backoff_sleep G a w0 = (None, w1)
      \<and> client_run E (trace w1) c = Inr (u # us)
      \<and> fst (save_image_from_url E u (output_dir G) (record_event (RemoteRun c) w1)) = Inl e \<longrightarrow>
      (\<exists>m. e = ImageSaveError m
         \<and> fst (attempts_loop E G c (a # rest) w0) = Inl (APIError (''Unexpected error: '' @ m)))
      \<and> run_count (trace (snd (attempts_loop E G c (a # rest) w0))) = run_count (trace w1) + 1)"
proof -
  have first: "(\<exists>m. e = ImageSaveError m
         \<and> fst (generate_image E G p w) = Inl (APIError (''Unexpected error: '' @ m)))
      \<and> run_count (trace (snd (generate_image E G p w))) = run_count (trace w) + 1"
    if v: "validate_prompt p = Inr c" and m: "0 \<le> max_retries G"
      and out: "client_run E (trace w) c = Inr (u # us)"
      and sv: "fst (save_image_from_url E u (output_dir G) (record_event (RemoteRun c) w)) = Inl e"
  proof -
    obtain rest' where r: "py_range (max_retries G + 1) = 0 # rest'"
      using py_range_head [OF m] by blast
    have b: "backoff_sleep G 0 w = (None, w)" by (rule backoff_sleep_first) simp
    show ?thesis
      unfolding generate_image_def v r
      using attempts_loop_save_fails [OF b out sv, of rest'] by auto
  qed
  have later: "(\<exists>m. e = ImageSaveError m
         \<and> fst (attempts_loop E G c (a # rest) w0) = Inl (APIError (''Unexpected error: '' @ m)))
      \<and> run_count (trace (snd (attempts_loop E G c (a # rest) w0))) = run_count (trace w1) + 1"
    if "backoff_sleep G a w0 = (None, w1)" and "client_run E (trace w1) c = Inr (u # us)"
      and "fst (save_image_from_url E u (output_dir G) (record_event (RemoteRun c) w1)) = Inl e"
    using attempts_loop_save_fails [OF that, of rest] by auto
  from first later show ?thesis by blast
qed

text \<open>
  C10: on success the \<open>prompt\<close> entry of the returned dictionary is the stripped
  prompt, not the raw input.
\<close>

theorem prompt_field_is_cleaned:
  "fst (generate_image E G prompt w) = Inr (Some d) \<Longrightarrow>
     \<exists>raw. prompt = PyStr raw \<and> d ''prompt'' = Some (py_strip raw)"
proof -
  assume ok: "fst (generate_image E G prompt w) = Inr (Some d)"
  show ?thesis
  proof (cases "validate_prompt prompt")
    case (Inl e)
    with ok show ?thesis by (simp add: generate_image_def)
  next
    case (Inr c)
    then have s: "is_str prompt" and c: "c = py_strip (str_value prompt)"
      by (auto simp: validate_prompt_def Let_def split: if_splits)
    from s obtain raw where raw: "prompt = PyStr raw" by (cases prompt) simp_all
    obtain w' where "attempts_loop E G c (py_range (max_retries G + 1)) w = (Inr (Some d), w')"
      using ok Inr
      by (cases "attempts_loop E G c (py_range (max_retries G + 1)) w")
         (simp add: generate_image_def)
    then have "d ''prompt'' = Some c" by (rule attempts_loop_success_prompt)
    with c raw show ?thesis by simp
  qed
qed

lemma validate_red_fox: "validate_prompt (PyStr ''a red fox'') = Inr ''a red fox''"
  by (simp add: validate_prompt_def Let_def py_strip_def py_isspace_def)

lemma sample_filepath:
  "os_path_join ''generated_images'' (''generated_image_'' @ ''20240101_120000'' @ ''.png'')
     = sample_path"
  by (simp add: os_path_join_def sample_path_def)

text \<open>C9 at an image fetch that fails.\<close>

theorem persist_failure_not_retried_witness:
  "validate_prompt (PyStr ''a red fox'') = Inr ''a red fox''
   \<and> 0 \<le> max_retries sample_generator
   \<and> client_run (sample_env\<lparr>requests_get := \<lambda>u. Inl (RequestException ''Download failed'')\<rparr>)
        (trace empty_world) ''a red fox'' = Inr [''http://example.com/image.png'']
   \<and> fst (save_image_from_url
            (sample_env\<lparr>requests_get := \<lambda>u. Inl (RequestException ''Download failed'')\<rparr>)
            ''http://example.com/image.png'' (output_dir sample_generator)
            (record_event (RemoteRun ''a red fox'') empty_world))
       = Inl (ImageSaveError ''Failed to download image: Download failed'')
   \<and> backoff_sleep sample_generator 0 empty_world = (None, empty_world)
   \<and> fst (generate_image
            (sample_env\<lparr>requests_get := \<lambda>u. Inl (RequestException ''Download failed'')\<rparr>)
            sample_generator (PyStr ''a red fox'') empty_world)
       = Inl (APIError ''Unexpected error: Failed to download image: Download failed'')
   \<and> run_count (trace (snd (generate_image
            (sample_env\<lparr>requests_get := \<lambda>u. Inl (RequestException ''Download failed'')\<rparr>)
            sample_generator (PyStr ''a red fox'') empty_world))) = 1"
proof -
  let ?E = "sample_env\<lparr>requests_get := \<lambda>u. Inl (RequestException ''Download failed'')\<rparr>"
  have m: "0 \<le> max_retries sample_generator" by (simp add: sample_generator_def)
  have out: "client_run ?E (trace empty_world) ''a red fox'' = Inr [''http://example.com/image.png'']"
    by (simp add: sample_env_def)
  have sv: "fst (save_image_from_url ?E ''http://example.com/image.png'' (output_dir sample_generator)
            (record_event (RemoteRun ''a red fox'') empty_world))
       = Inl (ImageSaveError ''Failed to download image: Download failed'')"
    by (simp add: save_image_from_url_def check_disk_space_def default_required_bytes_def
          save_try_block_def save_except_def sample_env_def Let_def)
  have b: "backoff_sleep sample_generator 0 empty_world = (None, empty_world)"
    by (simp add: backoff_sleep_def)
  have tw: "run_count (trace empty_world) = 0" by (simp add: empty_world_def)
  from validate_red_fox m out sv b tw
    persist_failure_not_retried [of "PyStr ''a red fox''" "''a red fox''" sample_generator ?E
      empty_world "''http://example.com/image.png''" "[]"
      "ImageSaveError ''Failed to download image: Download failed''" 0 empty_world empty_world
      "[1, 2]"]
  show ?thesis by simp
qed

text \<open>C10 at a prompt with blanks around it, in the sample environment.\<close>

theorem prompt_field_is_cleaned_witness:
  "fst (generate_image sample_env sample_generator (PyStr ''  a red fox  '') empty_world)
     = Inr (Some [''filepath'' \<mapsto> sample_path, ''prompt'' \<mapsto> ''a red fox''])
   \<and> (\<exists>raw. PyStr ''  a red fox  '' = PyStr raw
         \<and> [''filepath'' \<mapsto> sample_path, ''prompt'' \<mapsto> ''a red fox''] ''prompt''
             = Some (py_strip raw))"
proof -
  have v: "validate_prompt (PyStr ''  a red fox  '') = Inr ''a red fox''"
    by (simp add: validate_prompt_def Let_def py_strip_def py_isspace_def)
  obtain rest where r: "py_range (max_retries sample_generator + 1) = 0 # rest"
    using py_range_head [of "max_retries sample_generator"] by (auto simp: sample_generator_def)
  have sv: "fst (save_image_from_url sample_env ''http://example.com/image.png''
                  ''generated_images'' (record_event (RemoteRun ''a red fox'') empty_world))
              = Inr sample_path"
    unfolding save_image_from_url_def Let_def
    by (simp add: sample_filepath [simplified] check_disk_space_def default_required_bytes_def
          save_try_block_def validate_image_def os_path_exists_def
          sample_env_def empty_world_def Let_def record_event_def)
  obtain w3 where sv': "save_image_from_url sample_env ''http://example.com/image.png''
                  (output_dir sample_generator) (record_event (RemoteRun ''a red fox'') empty_world)
              = (Inr sample_path, w3)"
    using sv
    by (cases "save_image_from_url sample_env ''http://example.com/image.png''
                  ''generated_images'' (record_event (RemoteRun ''a red fox'') empty_world)")
       (simp add: sample_generator_def)
  have b: "backoff_sleep sample_generator 0 empty_world = (None, empty_world)"
    by (simp add: backoff_sleep_def)
  have out: "client_run sample_env (trace empty_world) ''a red fox''
               = Inr (''http://example.com/image.png'' # [])"
    by (simp add: sample_env_def)
  have h: "fst (generate_image sample_env sample_generator (PyStr ''  a red fox  '') empty_world)
     = Inr (Some [''filepath'' \<mapsto> sample_path, ''prompt'' \<mapsto> ''a red fox''])"
    unfolding generate_image_def v r
    using attempt_try_save_ok [OF b out sv'] by simp
  from h prompt_field_is_cleaned [OF h] show ?thesis by blast
qed

section \<open>Properties of save\_image\_from\_url\<close>

lemma save_image_from_url_unfold:
  "save_image_from_url E url d w =
     (case check_disk_space E (destination E d w) default_required_bytes w of
        (False, w0) \<Rightarrow> (Inl (ImageSaveError ''Insufficient disk space for saving the image''), w0)
      | (True, w0) \<Rightarrow>
          (case save_try_block E url (destination E d w) w0 of
             (Inl e, w') \<Rightarrow> (Inl (save_except e), w')
           | (Inr p, w') \<Rightarrow> (Inr p, w')))"
  unfolding save_image_from_url_def destination_def Let_def by (rule refl)

lemma check_disk_space_passes:
  "fst (check_disk_space E f r w) \<Longrightarrow>
     \<exists>w0. check_disk_space E f r w = (True, w0) \<and> files w0 = files w \<and> trace w0 = trace w"
  by (cases "check_disk_space E f r w") (auto dest: check_disk_space_world)




text \<open>
  What the try block returns and does to the files and the trace depends on the files and
  the trace it starts from, not on the log; and not on the free-space query.
\<close>

lemma save_try_block_same_state:
  assumes "files w = files v" and "trace w = trace v"
  shows "fst (save_try_block E u f w) = fst (save_try_block E u f v)
       \<and> files (snd (save_try_block E u f w)) = files (snd (save_try_block E u f v))
       \<and> trace (snd (save_try_block E u f w)) = trace (snd (save_try_block E u f v))"
  using assms
  unfolding save_try_block_def Let_def validate_image_def create_backup_def os_path_exists_def
  by (auto split: sum.splits option.splits py_exception.splits prod.splits bool.splits)

lemma save_try_block_disk_usage:
  "save_try_block (E\<lparr>disk_usage := x\<rparr>) u f w = save_try_block E u f w"
proof -
  have v: "validate_image (E\<lparr>disk_usage := x\<rparr>) = validate_image E"
    by (intro ext) (simp add: validate_image_def split: option.splits)
  have c: "create_backup (E\<lparr>disk_usage := x\<rparr>) = create_backup E"
    by (intro ext) (simp add: create_backup_def Let_def split: option.splits)
  show ?thesis
    unfolding save_try_block_def v c
    by (auto simp: Let_def split: sum.splits option.splits prod.splits bool.splits
          py_exception.splits)
qed

lemma save_try_block_copy2:
  "fst (save_try_block (E\<lparr>copy2 := cp\<rparr>) u f w) = fst (save_try_block E u f w)"
proof -
  have v: "validate_image (E\<lparr>copy2 := cp\<rparr>) = validate_image E"
    by (intro ext) (simp add: validate_image_def split: option.splits)
  show ?thesis
    unfolding save_try_block_def v
    by (auto simp: Let_def split: sum.splits option.splits prod.splits bool.splits
          py_exception.splits)
qed

lemma check_disk_space_copy2:
  "check_disk_space (E\<lparr>copy2 := cp\<rparr>) f r w = check_disk_space E f r w"
  by (simp add: check_disk_space_def)

lemma check_disk_space_raises:
  "disk_usage E (os_path_dirname f) = Inl e \<Longrightarrow>
     check_disk_space E f r w =
       (True, logger WARNING [Txt ''Failed to check disk space: '', Txt (str_of e)] w)"
  by (simp add: check_disk_space_def)

lemma check_disk_space_reports:
  "disk_usage E (os_path_dirname f) = Inr (t, u, free) \<Longrightarrow>
     check_disk_space E f r w = (free > r, w)"
  by (simp add: check_disk_space_def)

lemma save_outcome_fst:
  "check_disk_space E (destination E d w) default_required_bytes w = (True, w0) \<Longrightarrow>
   fst (save_image_from_url E url d w) =
     (case fst (save_try_block E url (destination E d w) w0) of
        Inl e \<Rightarrow> Inl (save_except e) | Inr p \<Rightarrow> Inr p)"
  unfolding save_image_from_url_unfold
  by (simp split: prod.splits sum.splits)

lemma save_outcome_snd:
  "check_disk_space E (destination E d w) default_required_bytes w = (True, w0) \<Longrightarrow>
   snd (save_image_from_url E url d w) = snd (save_try_block E url (destination E d w) w0)"
  unfolding save_image_from_url_unfold
  by (simp split: prod.splits sum.splits)

lemma save_except_not_disk:
  "save_except e \<noteq> ImageSaveError ''Insufficient disk space for saving the image''"
  by (simp add: save_except_def)

lemma save_outcome_trace:
  "check_disk_space E (destination E d w) default_required_bytes w = (True, w0) \<Longrightarrow>
   trace (snd (save_image_from_url E url d w)) = trace w @ [HttpGet url]"
proof -
  assume c: "check_disk_space E (destination E d w) default_required_bytes w = (True, w0)"
  obtain r w' where b: "save_try_block E url (destination E d w) w0 = (r, w')"
    by (cases "save_try_block E url (destination E d w) w0")
  from save_try_block_trace [OF b] check_disk_space_world [OF c]
  show ?thesis by (simp add: save_outcome_snd [OF c] b)
qed

text \<open>A call that finds no file at the destination and whose every step works.\<close>

lemma save_fresh:
  assumes disk: "fst (check_disk_space E (destination E d w) default_required_bytes w)"
    and get: "requests_get E url = Inr resp"
    and status: "status_error resp = None"
    and decode: "image_open E (content resp) = Inr img"
    and verify: "image_verify E img = None"
    and absent: "files w (destination E d w) = None"
    and written: "image_save E img (destination E d w) = Inr new"
  shows "fst (save_image_from_url E url d w) = Inr (destination E d w)"
    and "files (snd (save_image_from_url E url d w)) = (files w)(destination E d w \<mapsto> new)"
proof -
  let ?fp = "destination E d w"
  from check_disk_space_passes [OF disk] obtain w0 where
    c: "check_disk_space E ?fp default_required_bytes w = (True, w0)"
    and f: "files w0 = files w" by blast
  have ab0: "files w0 ?fp = None" using absent f by simp
  have blk: "save_try_block E url ?fp w0 =
     (Inr ?fp,
      logger INFO [Txt ''Successfully saved image to: '', Txt ?fp]
        ((record_event (HttpGet url) w0)\<lparr>files := (files w0)(?fp \<mapsto> new)\<rparr>))"
    by (simp add: save_try_block_def Let_def get status decode verify written ab0
          validate_image_def os_path_exists_def record_event_def)
  show "fst (save_image_from_url E url d w) = Inr ?fp"
    by (simp add: save_outcome_fst [OF c] blk)
  show "files (snd (save_image_from_url E url d w)) = (files w)(?fp \<mapsto> new)"
    by (simp add: save_outcome_snd [OF c] blk f)
qed

text \<open>
  C7: the disk-space check is advisory and fails open. If the free-space query itself
  raises, the check answers yes and \<open>save_image_from_url\<close> goes on: the fetch is made,
  the result is that of the download-decode-write block and not the disk-space error,
  and result, files and trace are the same as in an environment that differs only in
  reporting ample free space. If the query succeeds and reports free space at or below
  the floor of 10 MiB, the call raises \<open>ImageSaveError\<close>
  \<open>Insufficient disk space for saving the image\<close> and leaves the state as it was:
  nothing is fetched.
\<close>

theorem disk_check_advisory:
  "(disk_usage E (os_path_dirname (destination E d w)) = Inl e \<longrightarrow>
      fst (check_disk_space E (destination E d w) default_required_bytes w)
      \<and> trace (snd (save_image_from_url E url d w)) = trace w @ [HttpGet url]
      \<and> fst (save_image_from_url E url d w)
          = (case fst (save_try_block E url (destination E d w) w) of
               Inl x \<Rightarrow> Inl (save_except x) | Inr p \<Rightarrow> Inr p)
      \<and> fst (save_image_from_url E url d w)
          \<noteq> Inl (ImageSaveError ''Insufficient disk space for saving the image'')
      \<and> fst (save_image_from_url E url d w)
          = fst (save_image_from_url
                   (E\<lparr>disk_usage := \<lambda>p. Inr (2 * default_required_bytes, 0,
                                                2 * default_required_bytes)\<rparr>) url d w)
      \<and> files (snd (save_image_from_url E url d w))
          = files (snd (save_image_from_url
                   (E\<lparr>disk_usage := \<lambda>p. Inr (2 * default_required_bytes, 0,
                                                2 * default_required_bytes)\<rparr>) url d w))
      \<and> trace (snd (save_image_from_url E url d w))
          = trace (snd (save_image_from_url
                   (E\<lparr>disk_usage := \<lambda>p. Inr (2 * default_required_bytes, 0,
                                                2 * default_required_bytes)\<rparr>) url d w)))
   \<and> (disk_usage E (os_path_dirname (destination E d w)) = Inr (t, u, free)
        \<and> free \<le> default_required_bytes \<longrightarrow>
      save_image_from_url E url d w
        = (Inl (ImageSaveError ''Insufficient disk space for saving the image''), w)
      \<and> fetches_of (trace (snd (save_image_from_url E url d w))) = fetches_of (trace w))"
proof -
  let ?E' = "E\<lparr>disk_usage := \<lambda>p. Inr (2 * default_required_bytes, 0, 2 * default_required_bytes)\<rparr>"
  let ?fp = "destination E d w"
  have open_case: "fst (check_disk_space E ?fp default_required_bytes w)
      \<and> trace (snd (save_image_from_url E url d w)) = trace w @ [HttpGet url]
      \<and> fst (save_image_from_url E url d w)
          = (case fst (save_try_block E url ?fp w) of
               Inl x \<Rightarrow> Inl (save_except x) | Inr p \<Rightarrow> Inr p)
      \<and> fst (save_image_from_url E url d w)
          \<noteq> Inl (ImageSaveError ''Insufficient disk space for saving the image'')
      \<and> fst (save_image_from_url E url d w) = fst (save_image_from_url ?E' url d w)
      \<and> files (snd (save_image_from_url E url d w)) = files (snd (save_image_from_url ?E' url d w))
      \<and> trace (snd (save_image_from_url E url d w)) = trace (snd (save_image_from_url ?E' url d w))"
    if raises: "disk_usage E (os_path_dirname ?fp) = Inl e"
  proof -
    let ?w0 = "logger WARNING [Txt ''Failed to check disk space: '', Txt (str_of e)] w"
    have d': "destination ?E' d w = ?fp" by (simp add: destination_def)
    have c: "check_disk_space E ?fp default_required_bytes w = (True, ?w0)"
      using check_disk_space_raises [OF raises] .
    have c': "check_disk_space ?E' (destination ?E' d w) default_required_bytes w = (True, w)"
      by (simp add: check_disk_space_def default_required_bytes_def)
    have same: "fst (save_try_block E url ?fp ?w0) = fst (save_try_block E url ?fp w)
       \<and> files (snd (save_try_block E url ?fp ?w0)) = files (snd (save_try_block E url ?fp w))
       \<and> trace (snd (save_try_block E url ?fp ?w0)) = trace (snd (save_try_block E url ?fp w))"
      by (rule save_try_block_same_state) simp_all
    have env: "save_try_block ?E' url ?fp w = save_try_block E url ?fp w"
      by (rule save_try_block_disk_usage)
    have chk: "fst (check_disk_space E ?fp default_required_bytes w)" using c by simp
    have fetch: "trace (snd (save_image_from_url E url d w)) = trace w @ [HttpGet url]"
      by (rule save_outcome_trace [OF c])
    have outcome: "fst (save_image_from_url E url d w)
          = (case fst (save_try_block E url ?fp w) of
               Inl x \<Rightarrow> Inl (save_except x) | Inr p \<Rightarrow> Inr p)"
      using same by (simp add: save_outcome_fst [OF c])
    have nodisk: "fst (save_image_from_url E url d w)
          \<noteq> Inl (ImageSaveError ''Insufficient disk space for saving the image'')"
      unfolding outcome using save_except_not_disk by (simp split: sum.splits)
    have eqs: "fst (save_image_from_url E url d w) = fst (save_image_from_url ?E' url d w)
      \<and> files (snd (save_image_from_url E url d w)) = files (snd (save_image_from_url ?E' url d w))
      \<and> trace (snd (save_image_from_url E url d w)) = trace (snd (save_image_from_url ?E' url d w))"
      using c same env
      by (simp add: save_outcome_fst [OF c] save_outcome_snd [OF c]
            save_outcome_fst [OF c'] save_outcome_snd [OF c'] d')
    from chk fetch outcome nodisk eqs show ?thesis by blast
  qed
  have closed_case: "save_image_from_url E url d w
        = (Inl (ImageSaveError ''Insufficient disk space for saving the image''), w)
      \<and> fetches_of (trace (snd (save_image_from_url E url d w))) = fetches_of (trace w)"
    if "disk_usage E (os_path_dirname ?fp) = Inr (t, u, free)" and "free \<le> default_required_bytes"
  proof -
    have "check_disk_space E ?fp default_required_bytes w = (False, w)"
      using check_disk_space_reports [OF that(1)] that(2) by simp
    then show ?thesis
      unfolding save_image_from_url_unfold by simp
  qed
  from open_case closed_case show ?thesis by blast
qed

text \<open>
  C7 at a free-space query that is refused, where the image is fetched and saved all the
  same, and at one that reports 1 MB free.
\<close>

theorem disk_check_advisory_witness:
  "disk_usage (sample_env\<lparr>disk_usage := \<lambda>p. Inl (OSError ''Permission denied'')\<rparr>)
      (os_path_dirname (destination
          (sample_env\<lparr>disk_usage := \<lambda>p. Inl (OSError ''Permission denied'')\<rparr>)
          ''generated_images'' empty_world))
     = Inl (OSError ''Permission denied'')
   \<and> fst (check_disk_space (sample_env\<lparr>disk_usage := \<lambda>p. Inl (OSError ''Permission denied'')\<rparr>)
           (destination (sample_env\<lparr>disk_usage := \<lambda>p. Inl (OSError ''Permission denied'')\<rparr>)
              ''generated_images'' empty_world)
           default_required_bytes empty_world)
   \<and> trace (snd (save_image_from_url
        (sample_env\<lparr>disk_usage := \<lambda>p. Inl (OSError ''Permission denied'')\<rparr>)
        ''http://example.com/image.png'' ''generated_images'' empty_world))
       = [HttpGet ''http://example.com/image.png'']
   \<and> fst (save_image_from_url
        (sample_env\<lparr>disk_usage := \<lambda>p. Inl (OSError ''Permission denied'')\<rparr>)
        ''http://example.com/image.png'' ''generated_images'' empty_world)
       = Inr sample_path
   \<and> fst (save_image_from_url
        (sample_env\<lparr>disk_usage := \<lambda>p. Inl (OSError ''Permission denied'')\<rparr>)
        ''http://example.com/image.png'' ''generated_images'' empty_world)
       \<noteq> Inl (ImageSaveError ''Insufficient disk space for saving the image'')
   \<and> disk_usage (sample_env\<lparr>disk_usage := \<lambda>p. Inr (500000000000, 499999000000, 1000000)\<rparr>)
      (os_path_dirname (destination
          (sample_env\<lparr>disk_usage := \<lambda>p. Inr (500000000000, 499999000000, 1000000)\<rparr>)
          ''generated_images'' empty_world))
     = Inr (500000000000, 499999000000, 1000000)
   \<and> 1000000 \<le> default_required_bytes
   \<and> save_image_from_url
        (sample_env\<lparr>disk_usage := \<lambda>p. Inr (500000000000, 499999000000, 1000000)\<rparr>)
        ''http://example.com/image.png'' ''generated_images'' empty_world
       = (Inl (ImageSaveError ''Insufficient disk space for saving the image''), empty_world)"
proof -
  let ?E1 = "sample_env\<lparr>disk_usage := \<lambda>p. Inl (OSError ''Permission denied'')\<rparr>"
  let ?E2 = "sample_env\<lparr>disk_usage := \<lambda>p. Inr (500000000000, 499999000000, 1000000)\<rparr>"
  let ?url = "''http://example.com/image.png''"
  let ?resp = "\<lparr>content = ''PNG-bytes'', status_error = None\<rparr>"
  let ?img = "Image ''PNG'' ''red square''"
  have h1: "disk_usage ?E1 (os_path_dirname (destination ?E1 ''generated_images'' empty_world))
              = Inl (OSError ''Permission denied'')" by simp
  have h2: "disk_usage ?E2 (os_path_dirname (destination ?E2 ''generated_images'' empty_world))
              = Inr (500000000000, 499999000000, 1000000)" by simp
  have h3: "(1000000::nat) \<le> default_required_bytes" by (simp add: default_required_bytes_def)
  have tw: "trace empty_world = []" by (simp add: empty_world_def)
  note A = disk_check_advisory [of ?E1 "''generated_images''" empty_world
             "OSError ''Permission denied''" ?url 0 0 0]
  note B = disk_check_advisory [of ?E2 "''generated_images''" empty_world "OSError ''x''"
             ?url 500000000000 499999000000 1000000]
  from A h1 have chk: "fst (check_disk_space ?E1 (destination ?E1 ''generated_images'' empty_world)
                         default_required_bytes empty_world)" by blast
  from A h1 have "trace (snd (save_image_from_url ?E1 ?url ''generated_images'' empty_world))
                    = trace empty_world @ [HttpGet ?url]" by blast
  then have fetch: "trace (snd (save_image_from_url ?E1 ?url ''generated_images'' empty_world))
                    = [HttpGet ?url]" by (simp add: tw)
  from A h1 have nodisk: "fst (save_image_from_url ?E1 ?url ''generated_images'' empty_world)
       \<noteq> Inl (ImageSaveError ''Insufficient disk space for saving the image'')" by blast
  have fp: "destination ?E1 ''generated_images'' empty_world = sample_path"
    by (simp add: destination_def sample_env_def sample_filepath [simplified])
  have saved: "fst (save_image_from_url ?E1 ?url ''generated_images'' empty_world) = Inr sample_path"
  proof -
    have "fst (save_image_from_url ?E1 ?url ''generated_images'' empty_world)
            = Inr (destination ?E1 ''generated_images'' empty_world)"
    proof (rule save_fresh(1) [OF chk, of ?url ?resp ?img "''PNG:red square''"])
      show "requests_get ?E1 ?url = Inr ?resp" by (simp add: sample_env_def)
      show "status_error ?resp = None" by simp
      show "image_open ?E1 (content ?resp) = Inr ?img" by (simp add: sample_env_def)
      show "image_verify ?E1 ?img = None" by (simp add: sample_env_def)
      show "files empty_world (destination ?E1 ''generated_images'' empty_world) = None"
        by (simp add: empty_world_def)
      show "image_save ?E1 ?img (destination ?E1 ''generated_images'' empty_world)
              = Inr ''PNG:red square''" by (simp add: sample_env_def)
    qed
    then show ?thesis by (simp only: fp)
  qed
  from B h2 h3 have closed: "save_image_from_url ?E2 ?url ''generated_images'' empty_world
       = (Inl (ImageSaveError ''Insufficient disk space for saving the image''), empty_world)"
    by blast
  from h1 chk fetch saved nodisk h2 h3 closed show ?thesis by blast
qed

lemma backup_of_neq: "backup_of f \<noteq> f"
  by (simp add: backup_of_def)

text \<open>
  A call that finds a file at the destination and whose every step works, whatever the
  backup copy does: the files afterwards follow what the copy did to the backup path.
\<close>

lemma save_over_existing:
  assumes disk: "fst (check_disk_space E (destination E d w) default_required_bytes w)"
    and get: "requests_get E url = Inr resp"
    and status: "status_error resp = None"
    and decode: "image_open E (content resp) = Inr img"
    and verify: "image_verify E img = None"
    and exists: "files w (destination E d w) = Some old"
    and written: "image_save E img (destination E d w) = Inr new"
  shows "fst (save_image_from_url E url d w) = Inr (destination E d w)"
    and "files (snd (save_image_from_url E url d w)) =
           (case copy2 E (destination E d w) (backup_of (destination E d w)) of
              None \<Rightarrow> (files w)(backup_of (destination E d w) \<mapsto> old, destination E d w \<mapsto> new)
            | Some (x, None) \<Rightarrow> (files w)(destination E d w \<mapsto> new)
            | Some (x, Some partial) \<Rightarrow>
                (files w)(backup_of (destination E d w) \<mapsto> partial, destination E d w \<mapsto> new))"
    and "copy2 E (destination E d w) (backup_of (destination E d w)) = Some (x, left) \<Longrightarrow>
           (WARNING, [Txt ''Failed to create backup: '', Txt (str_of x)])
             \<in> set (log (snd (save_image_from_url E url d w)))"
proof -
  let ?fp = "destination E d w"
  from check_disk_space_passes [OF disk] obtain w0 where
    c: "check_disk_space E ?fp default_required_bytes w = (True, w0)"
    and f: "files w0 = files w" by blast
  have ex0: "files w0 ?fp = Some old" using exists f by simp
  let ?w1 = "record_event (HttpGet url) w0"
  have bk: "create_backup E ?fp ?w1 =
     (case copy2 E ?fp (backup_of ?fp) of
        None \<Rightarrow> (Some (backup_of ?fp), ?w1\<lparr>files := (files w0)(backup_of ?fp \<mapsto> old)\<rparr>)
      | Some (x, None) \<Rightarrow>
          (None, logger WARNING [Txt ''Failed to create backup: '', Txt (str_of x)] ?w1)
      | Some (x, Some partial) \<Rightarrow>
          (None, logger WARNING [Txt ''Failed to create backup: '', Txt (str_of x)]
                   (?w1\<lparr>files := (files w0)(backup_of ?fp \<mapsto> partial)\<rparr>)))"
    by (simp add: create_backup_def backup_of_def Let_def ex0 split: option.splits)
  define w3 where "w3 =
     (case create_backup E ?fp ?w1 of
        (Some backup_path, w') \<Rightarrow> logger INFO [Txt ''Created backup at: '', Txt backup_path] w'
      | (None, w') \<Rightarrow> w')"
  have blk: "save_try_block E url ?fp w0 =
     (Inr ?fp,
      logger INFO [Txt ''Successfully saved image to: '', Txt ?fp]
        (w3\<lparr>files := (files w3)(?fp \<mapsto> new)\<rparr>))"
    by (simp add: save_try_block_def Let_def get status decode verify written ex0
          validate_image_def os_path_exists_def w3_def)
  have f3: "files w3 =
           (case copy2 E ?fp (backup_of ?fp) of
              None \<Rightarrow> (files w)(backup_of ?fp \<mapsto> old)
            | Some (x, None) \<Rightarrow> files w
            | Some (x, Some partial) \<Rightarrow> (files w)(backup_of ?fp \<mapsto> partial))"
    unfolding w3_def bk by (simp add: f split: option.splits)
  show "fst (save_image_from_url E url d w) = Inr ?fp"
    by (simp add: save_outcome_fst [OF c] blk)
  show "files (snd (save_image_from_url E url d w)) =
           (case copy2 E ?fp (backup_of ?fp) of
              None \<Rightarrow> (files w)(backup_of ?fp \<mapsto> old, ?fp \<mapsto> new)
            | Some (x, None) \<Rightarrow> (files w)(?fp \<mapsto> new)
            | Some (x, Some partial) \<Rightarrow> (files w)(backup_of ?fp \<mapsto> partial, ?fp \<mapsto> new))"
    by (simp add: save_outcome_snd [OF c] blk f3 split: option.splits)
  show "(WARNING, [Txt ''Failed to create backup: '', Txt (str_of x)])
             \<in> set (log (snd (save_image_from_url E url d w)))"
    if cp: "copy2 E ?fp (backup_of ?fp) = Some (x, left)"
  proof -
    have "(WARNING, [Txt ''Failed to create backup: '', Txt (str_of x)]) \<in> set (log w3)"
      unfolding w3_def bk cp by (cases left) (simp_all add: logger_def)
    then show ?thesis
      by (simp add: save_outcome_snd [OF c] blk logger_def)
  qed
qed

text \<open>
  C8, as the claim states it, fails: with the destination already there and a copy that
  is refused, the call succeeds and there is no backup file afterwards.
\<close>

theorem backup_not_guaranteed_counterexample:
  "files (empty_world\<lparr>files := [sample_path \<mapsto> ''old image'']\<rparr>) sample_path = Some ''old image''
   \<and> fst (save_image_from_url
            (sample_env\<lparr>copy2 := \<lambda>src dst. Some (OSError ''Permission denied'', None)\<rparr>)
            ''http://example.com/image.png'' ''generated_images''
            (empty_world\<lparr>files := [sample_path \<mapsto> ''old image'']\<rparr>)) = Inr sample_path
   \<and> files (snd (save_image_from_url
            (sample_env\<lparr>copy2 := \<lambda>src dst. Some (OSError ''Permission denied'', None)\<rparr>)
            ''http://example.com/image.png'' ''generated_images''
            (empty_world\<lparr>files := [sample_path \<mapsto> ''old image'']\<rparr>)))
        (backup_of sample_path) = None"
proof -
  let ?E = "sample_env\<lparr>copy2 := \<lambda>src dst. Some (OSError ''Permission denied'', None)\<rparr>"
  let ?w = "empty_world\<lparr>files := [sample_path \<mapsto> ''old image'']\<rparr>"
  have fp: "destination ?E ''generated_images'' ?w = sample_path"
    by (simp add: destination_def sample_env_def sample_filepath [simplified])
  have disk: "fst (check_disk_space ?E (destination ?E ''generated_images'' ?w)
                default_required_bytes ?w)"
    by (simp add: check_disk_space_def sample_env_def default_required_bytes_def)
  have get: "requests_get ?E ''http://example.com/image.png''
               = Inr \<lparr>content = ''PNG-bytes'', status_error = None\<rparr>"
    by (simp add: sample_env_def)
  have status: "status_error \<lparr>content = ''PNG-bytes'', status_error = None\<rparr> = None" by simp
  have decode: "image_open ?E (content \<lparr>content = ''PNG-bytes'', status_error = None\<rparr>)
                  = Inr (Image ''PNG'' ''red square'')"
    by (simp add: sample_env_def)
  have verify: "image_verify ?E (Image ''PNG'' ''red square'') = None"
    by (simp add: sample_env_def)
  have exists: "files ?w (destination ?E ''generated_images'' ?w) = Some ''old image''"
    by (simp add: fp)
  have written: "image_save ?E (Image ''PNG'' ''red square'') (destination ?E ''generated_images'' ?w)
                   = Inr ''PNG:red square''"
    by (simp add: sample_env_def)
  have cp: "copy2 ?E sample_path (backup_of sample_path) = Some (OSError ''Permission denied'', None)"
    by simp
  have e: "files ?w (backup_of sample_path) = None"
    using backup_of_neq [of sample_path] by (simp add: empty_world_def)
  note R = save_over_existing [OF disk get status decode verify exists written]
  from R(1) have r1: "fst (save_image_from_url ?E ''http://example.com/image.png''
                        ''generated_images'' ?w) = Inr sample_path"
    by (simp only: fp)
  from R(2) have r2: "files (snd (save_image_from_url ?E ''http://example.com/image.png''
                        ''generated_images'' ?w)) = (files ?w)(sample_path \<mapsto> ''PNG:red square'')"
    by (simp only: fp cp option.case prod.case)
  from r2 e have r3: "files (snd (save_image_from_url ?E ''http://example.com/image.png''
                        ''generated_images'' ?w)) (backup_of sample_path) = None"
    using backup_of_neq [of sample_path] by simp
  have r0: "files ?w sample_path = Some ''old image''" by simp
  from r0 r1 r3 show ?thesis by blast
qed

text \<open>
  C8, amended: backup is best-effort. When the destination path already exists at write
  time and the call gets as far as the write (disk check passed, bytes fetched, decoded
  and verified, write succeeds), the call succeeds and the destination holds the newly
  written image; if the copy to \<open><path>.backup\<close> succeeded, that file holds the prior
  content of the destination; if the copy failed, the failure is swallowed and logged as
  a warning. Whatever the copy does, the result of the call is the same: a failure while
  creating the backup never makes the call fail.
\<close>

theorem backup_best_effort:
  "(fst (check_disk_space E (destination E d w) default_required_bytes w)
      \<and> requests_get E url = Inr resp \<and> status_error resp = None
      \<and> image_open E (content resp) = Inr img \<and> image_verify E img = None
      \<and> files w (destination E d w) = Some old
      \<and> image_save E img (destination E d w) = Inr new \<longrightarrow>
      fst (save_image_from_url E url d w) = Inr (destination E d w)
      \<and> files (snd (save_image_from_url E url d w)) (destination E d w) = Some new
      \<and> (copy2 E (destination E d w) (backup_of (destination E d w)) = None \<longrightarrow>
           files (snd (save_image_from_url E url d w)) (backup_of (destination E d w)) = Some old)
      \<and> (\<forall>x left. copy2 E (destination E d w) (backup_of (destination E d w)) = Some (x, left) \<longrightarrow>
           (WARNING, [Txt ''Failed to create backup: '', Txt (str_of x)])
                 \<in> set (log (snd (save_image_from_url E url d w)))))
   \<and> fst (save_image_from_url (E\<lparr>copy2 := cp\<rparr>) url d w) = fst (save_image_from_url E url d w)"
proof -
  let ?fp = "destination E d w"
  let ?w' = "snd (save_image_from_url E url d w)"
  have main: "fst (save_image_from_url E url d w) = Inr ?fp
      \<and> files ?w' ?fp = Some new
      \<and> (copy2 E ?fp (backup_of ?fp) = None \<longrightarrow> files ?w' (backup_of ?fp) = Some old)
      \<and> (\<forall>x left. copy2 E ?fp (backup_of ?fp) = Some (x, left) \<longrightarrow>
           (WARNING, [Txt ''Failed to create backup: '', Txt (str_of x)]) \<in> set (log ?w'))"
    if disk: "fst (check_disk_space E ?fp default_required_bytes w)"
      and get: "requests_get E url = Inr resp" and status: "status_error resp = None"
      and decode: "image_open E (content resp) = Inr img" and verify: "image_verify E img = None"
      and exists: "files w ?fp = Some old" and written: "image_save E img ?fp = Inr new"
  proof -
    note R = save_over_existing [OF disk get status decode verify exists written]
    have a: "files ?w' ?fp = Some new"
      by (simp add: R(2) split: option.splits prod.splits)
    have b: "files ?w' (backup_of ?fp) = Some old"
      if "copy2 E ?fp (backup_of ?fp) = None"
      using that backup_of_neq [of ?fp] by (simp add: R(2))
    from R(1) a b R(3) show ?thesis by blast
  qed
  have indep: "fst (save_image_from_url (E\<lparr>copy2 := cp\<rparr>) url d w)
                 = fst (save_image_from_url E url d w)"
  proof -
    have dd: "destination (E\<lparr>copy2 := cp\<rparr>) d w = ?fp" by (simp add: destination_def)
    show ?thesis
    proof (cases "fst (check_disk_space E ?fp default_required_bytes w)")
      case True
      then obtain w0 where c: "check_disk_space E ?fp default_required_bytes w = (True, w0)"
        using check_disk_space_passes by blast
      have c': "check_disk_space (E\<lparr>copy2 := cp\<rparr>) (destination (E\<lparr>copy2 := cp\<rparr>) d w)
                  default_required_bytes w = (True, w0)"
        using c by (simp add: dd check_disk_space_copy2)
      show ?thesis
        by (simp add: save_outcome_fst [OF c] save_outcome_fst [OF c'] dd save_try_block_copy2)
    next
      case False
      then obtain w0 where c: "check_disk_space E ?fp default_required_bytes w = (False, w0)"
        by (cases "check_disk_space E ?fp default_required_bytes w") simp
      have c': "check_disk_space (E\<lparr>copy2 := cp\<rparr>) (destination (E\<lparr>copy2 := cp\<rparr>) d w)
                  default_required_bytes w = (False, w0)"
        using c by (simp add: dd check_disk_space_copy2)
      show ?thesis
        unfolding save_image_from_url_unfold c c' by simp
    qed
  qed
  from main indep show ?thesis by blast
qed

text \<open>
  C8, amended, at an existing destination, once with a copy that works and once with one
  that is refused.
\<close>

theorem backup_best_effort_witness:
  "files (empty_world\<lparr>files := [sample_path \<mapsto> ''old image'']\<rparr>) sample_path = Some ''old image''
   \<and> copy2 sample_env sample_path (backup_of sample_path) = None
   \<and> fst (save_image_from_url sample_env ''http://example.com/image.png'' ''generated_images''
            (empty_world\<lparr>files := [sample_path \<mapsto> ''old image'']\<rparr>)) = Inr sample_path
   \<and> files (snd (save_image_from_url sample_env ''http://example.com/image.png''
            ''generated_images'' (empty_world\<lparr>files := [sample_path \<mapsto> ''old image'']\<rparr>)))
         sample_path = Some ''PNG:red square''
   \<and> files (snd (save_image_from_url sample_env ''http://example.com/image.png''
            ''generated_images'' (empty_world\<lparr>files := [sample_path \<mapsto> ''old image'']\<rparr>)))
         (backup_of sample_path) = Some ''old image''
   \<and> copy2 (sample_env\<lparr>copy2 := \<lambda>src dst. Some (OSError ''Permission denied'', None)\<rparr>)
         sample_path (backup_of sample_path) = Some (OSError ''Permission denied'', None)
   \<and> fst (save_image_from_url
            (sample_env\<lparr>copy2 := \<lambda>src dst. Some (OSError ''Permission denied'', None)\<rparr>)
            ''http://example.com/image.png'' ''generated_images''
            (empty_world\<lparr>files := [sample_path \<mapsto> ''old image'']\<rparr>)) = Inr sample_path
   \<and> (WARNING, [Txt ''Failed to create backup: '', Txt ''Permission denied''])
        \<in> set (log (snd (save_image_from_url
              (sample_env\<lparr>copy2 := \<lambda>src dst. Some (OSError ''Permission denied'', None)\<rparr>)
              ''http://example.com/image.png'' ''generated_images''
              (empty_world\<lparr>files := [sample_path \<mapsto> ''old image'']\<rparr>))))"
proof -
  let ?F = "sample_env\<lparr>copy2 := \<lambda>src dst. Some (OSError ''Permission denied'', None)\<rparr>"
  let ?w = "empty_world\<lparr>files := [sample_path \<mapsto> ''old image'']\<rparr>"
  let ?resp = "\<lparr>content = ''PNG-bytes'', status_error = None\<rparr>"
  let ?img = "Image ''PNG'' ''red square''"
  have fp: "destination sample_env ''generated_images'' ?w = sample_path"
    by (simp add: destination_def sample_env_def sample_filepath [simplified])
  have fp': "destination ?F ''generated_images'' ?w = sample_path"
    by (simp add: destination_def sample_env_def sample_filepath [simplified])
  have hyps: "fst (check_disk_space sample_env (destination sample_env ''generated_images'' ?w)
                 default_required_bytes ?w)
      \<and> requests_get sample_env ''http://example.com/image.png'' = Inr ?resp
      \<and> status_error ?resp = None
      \<and> image_open sample_env (content ?resp) = Inr ?img \<and> image_verify sample_env ?img = None
      \<and> files ?w (destination sample_env ''generated_images'' ?w) = Some ''old image''
      \<and> image_save sample_env ?img (destination sample_env ''generated_images'' ?w)
            = Inr ''PNG:red square''"
    unfolding fp
    by (simp add: check_disk_space_def sample_env_def default_required_bytes_def)
  have hyps': "fst (check_disk_space ?F (destination ?F ''generated_images'' ?w)
                 default_required_bytes ?w)
      \<and> requests_get ?F ''http://example.com/image.png'' = Inr ?resp
      \<and> status_error ?resp = None
      \<and> image_open ?F (content ?resp) = Inr ?img \<and> image_verify ?F ?img = None
      \<and> files ?w (destination ?F ''generated_images'' ?w) = Some ''old image''
      \<and> image_save ?F ?img (destination ?F ''generated_images'' ?w) = Inr ''PNG:red square''"
    unfolding fp'
    by (simp add: check_disk_space_def sample_env_def default_required_bytes_def)
  have ok: "copy2 sample_env sample_path (backup_of sample_path) = None"
    by (simp add: sample_env_def)
  have bad: "copy2 ?F sample_path (backup_of sample_path) = Some (OSError ''Permission denied'', None)"
    by simp
  have ex: "files ?w sample_path = Some ''old image''" by simp
  note A = backup_best_effort [of sample_env "''generated_images''" ?w
              "''http://example.com/image.png''" ?resp ?img "''old image''" "''PNG:red square''"
              "copy2 sample_env", unfolded fp]
  note B = backup_best_effort [of ?F "''generated_images''" ?w
              "''http://example.com/image.png''" ?resp ?img "''old image''" "''PNG:red square''"
              "copy2 sample_env", unfolded fp']
  from A hyps [unfolded fp] ok
  have a: "fst (save_image_from_url sample_env ''http://example.com/image.png'' ''generated_images'' ?w)
             = Inr sample_path
     \<and> files (snd (save_image_from_url sample_env ''http://example.com/image.png''
                ''generated_images'' ?w)) sample_path = Some ''PNG:red square''
     \<and> files (snd (save_image_from_url sample_env ''http://example.com/image.png''
                ''generated_images'' ?w)) (backup_of sample_path) = Some ''old image''"
    by blast
  from B hyps' [unfolded fp'] bad
  have b: "fst (save_image_from_url ?F ''http://example.com/image.png'' ''generated_images'' ?w)
             = Inr sample_path
     \<and> (WARNING, [Txt ''Failed to create backup: '', Txt (str_of (OSError ''Permission denied''))])
        \<in> set (log (snd (save_image_from_url ?F ''http://example.com/image.png''
                            ''generated_images'' ?w)))"
    by blast
  from ex ok a bad b show ?thesis by simp
qed

end
